theory Spec2Isabelle
  imports Main
begin

section \<open>The authentication handlers of bennu\<close>

text \<open>
  The handlers of \<open>handlers/auth.go\<close> (\<open>AuthHandler\<close>), embedded as functions from
  the user collection and the request to what the handler writes and the collection it
  leaves. Each handler takes \<open>(rw, r)\<close> in Go; here the request is a record, and the
  writes to \<open>rw\<close> and to the collection are returned.
\<close>

subsection \<open>Errors\<close>

text \<open>
  Go error values. \<open>Io_EOF\<close> is \<open>io.EOF\<close>, which the handlers compare by identity;
  \<open>Errors_New m\<close> is \<open>errors.New(m)\<close>; \<open>No_Documents\<close> is the not-found error of
  the data-access object; \<open>Foreign m\<close> is an error made by a package outside the
  repository (\<open>encoding/json\<close>, \<open>bcrypt\<close>, the database driver), with its message.
\<close>

datatype error =
    Io_EOF
  | Errors_New string
  | No_Documents
  | Foreign string

subsection \<open>Requests\<close>

text \<open>
  \<open>var payload *T; err := json.NewDecoder(r.Body).Decode(&payload)\<close> ends in one
  of three ways: an error (\<open>io.EOF\<close> on an empty body), no error with the pointer
  left \<open>nil\<close> (the JSON literal \<open>null\<close>), or no error with the pointer at a decoded
  struct.
\<close>

datatype 'p decoded =
    Decode_Error error
  | Nil_Pointer
  | Pointer 'p

record 'p request =
  Body :: "'p decoded"
  Cookies :: "(string \<times> string) list"

text \<open>\<open>loginRequest\<close>: the fields carry their JSON tags.\<close>

record loginRequest =
  email :: string
  password :: string

subsection \<open>The user document\<close>

type_synonym objectID = string
type_synonym timestamp = nat

text \<open>
  \<open>models.User\<close>, with the fields the handlers read and write (\<open>Password\<close>,
  \<open>Verified\<close>, \<open>CreatedAt\<close>, \<open>UpdatedAt\<close>) and the two the filters name
  (\<open>_id\<close>, \<open>email\<close>).
\<close>

record user =
  ID :: objectID
  Email :: string
  Password :: string
  Verified :: bool
  CreatedAt :: timestamp
  UpdatedAt :: timestamp

subsection \<open>Replies\<close>

datatype jvalue = JString string | JId objectID

text \<open>
  What a handler writes: one call of a renderer of package \<open>res\<close>, or
  \<open>render.Status(r, s); render.Respond(rw, r, &res.JSON{...})\<close>, or nothing at all
  (the handler returns without touching \<open>rw\<close>), or a panic before any write.
\<close>

datatype reply =
    ErrDecode error
  | ErrBadRequest error
  | ErrNotFound error
  | Err error nat
  | Respond nat "(string \<times> jvalue) list"
  | Nothing_Written
  | Panicked

abbreviation StatusOK :: nat where "StatusOK \<equiv> 200"
abbreviation StatusCreated :: nat where "StatusCreated \<equiv> 201"
abbreviation StatusBadRequest :: nat where "StatusBadRequest \<equiv> 400"
abbreviation StatusNotFound :: nat where "StatusNotFound \<equiv> 404"
abbreviation StatusInternalServerError :: nat where "StatusInternalServerError \<equiv> 500"

text \<open>
  The status line of a reply. \<open>res.Err(err, code)\<close> carries its code;
  \<open>res.ErrBadRequest\<close> and \<open>res.ErrNotFound\<close> are read by their names. A handler
  that returns without writing leaves \<open>net/http\<close> to send \<open>200 OK\<close> with an empty
  body. The code of \<open>res.ErrDecode\<close> is not named where it is called, and a panic is
  answered by the recovery middleware, so neither has a status here.
\<close>

definition status :: "reply \<Rightarrow> nat option" where
  "status rp =
     (case rp of
        ErrDecode e \<Rightarrow> None
      | ErrBadRequest e \<Rightarrow> Some StatusBadRequest
      | ErrNotFound e \<Rightarrow> Some StatusNotFound
      | Err e code \<Rightarrow> Some code
      | Respond code b \<Rightarrow> Some code
      | Nothing_Written \<Rightarrow> Some StatusOK
      | Panicked \<Rightarrow> None)"

text \<open>The message of an error reply: the error handed to the renderer.\<close>

definition message :: "reply \<Rightarrow> error option" where
  "message rp =
     (case rp of
        ErrDecode e \<Rightarrow> Some e
      | ErrBadRequest e \<Rightarrow> Some e
      | ErrNotFound e \<Rightarrow> Some e
      | Err e code \<Rightarrow> Some e
      | Respond code b \<Rightarrow> None
      | Nothing_Written \<Rightarrow> None
      | Panicked \<Rightarrow> None)"

definition is_success :: "reply \<Rightarrow> bool" where
  "is_success rp = (case rp of Respond code b \<Rightarrow> True | _ \<Rightarrow> False)"

definition is_failure :: "reply \<Rightarrow> bool" where
  "is_failure rp =
     (case rp of
        ErrDecode e \<Rightarrow> True
      | ErrBadRequest e \<Rightarrow> True
      | ErrNotFound e \<Rightarrow> True
      | Err e code \<Rightarrow> True
      | _ \<Rightarrow> False)"

text \<open>A cookie set with \<open>http.SetCookie\<close>.\<close>

record cookie =
  Name :: string
  Value :: string
  HttpOnly :: bool
  Secure :: bool

text \<open>
  The outcome of one handler call: the reply, the cookies set on the response, and the
  user collection afterwards.
\<close>

record outcome =
  response :: reply
  set_cookies :: "cookie list"
  users :: "user list"

subsection \<open>Filters\<close>

text \<open>
  A filter (\<open>dao.Where\<close>) is a list of conditions that must all hold: a key with the
  value it must equal, or \<open>$and\<close> with the conditions it joins.
\<close>

datatype cond =
    Key_id objectID
  | Key_email string
  | Key_verified bool
  | Key_and "cond list"

fun matches :: "user \<Rightarrow> cond \<Rightarrow> bool" where
  "matches u (Key_id i) = (ID u = i)"
| "matches u (Key_email e) = (Email u = e)"
| "matches u (Key_verified b) = (Verified u = b)"
| "matches u (Key_and cs) = list_all (matches u) cs"

subsection \<open>The environment of a call\<close>

text \<open>
  What a handler takes from outside the repository: the two functions of
  \<open>golang.org/x/crypto/bcrypt\<close> (the salt of \<open>GenerateFromPassword\<close> is drawn by the
  library, so the function stands for the draw of this call), the clock, and what the
  backing store decides: whether a lookup fails before it answers (a timeout, the store
  being unavailable), whether an insert is refused, and the id an insert gets.
\<close>

record env =
  CompareHashAndPassword :: "string \<Rightarrow> string \<Rightarrow> error option"
  GenerateFromPassword :: "string \<Rightarrow> nat \<Rightarrow> error + string"
  Now :: timestamp
  find_failed :: "user list \<Rightarrow> cond list \<Rightarrow> error option"
  insert_refused :: "user list \<Rightarrow> user \<Rightarrow> error option"
  inserted_id :: "user list \<Rightarrow> user \<Rightarrow> objectID"

subsection \<open>The data-access object\<close>

text \<open>
  Modelled from the spec: package \<open>dao\<close> (\<open>Factory\<close>, \<open>GetUserDao\<close>, \<open>FindOne\<close>,
  \<open>Create\<close>) is not among the source files. The specification gives its interface as
  \<open>findOne(filter) -> record | not-found\<close> and \<open>create(record) -> id\<close> over the user
  collection, and lets every call to the backing store fail (a timeout or the store
  being unavailable is a transient failure the caller sees): \<open>FindOne\<close> returns the
  first document the filter matches unless the lookup fails, \<open>Create\<close> appends the
  document under the id the collection gives it unless the insert is refused.
\<close>

definition FindOne :: "env \<Rightarrow> user list \<Rightarrow> cond list \<Rightarrow> error + user" where
  "FindOne ev us w =
     (case find_failed ev us w of
        Some err \<Rightarrow> Inl err
      | None \<Rightarrow>
          (case List.find (\<lambda>u. list_all (matches u) w) us of
             None \<Rightarrow> Inl No_Documents
           | Some u \<Rightarrow> Inr u))"

definition Create :: "env \<Rightarrow> user list \<Rightarrow> user \<Rightarrow> error + (objectID \<times> user list)" where
  "Create ev us u =
     (case insert_refused ev us u of
        Some err \<Rightarrow> Inl err
      | None \<Rightarrow> Inr (inserted_id ev us u, us @ [u\<lparr>ID := inserted_id ev us u\<rparr>]))"

subsection \<open>Login and Register\<close>

definition Login :: "env \<Rightarrow> user list \<Rightarrow> loginRequest request \<Rightarrow> outcome" where
  "Login ev us r =
     (case Body r of
        Decode_Error err \<Rightarrow>
          (if err = Io_EOF
           then \<lparr>response = ErrDecode err, set_cookies = [], users = us\<rparr>
           else \<lparr>response = ErrDecode err, set_cookies = [], users = us\<rparr>)
      | Nil_Pointer \<Rightarrow> \<lparr>response = Panicked, set_cookies = [], users = us\<rparr>
      | Pointer payload \<Rightarrow>
          (case FindOne ev us [Key_and [Key_email (email payload), Key_verified True]] of
             Inl err \<Rightarrow> \<lparr>response = ErrBadRequest err, set_cookies = [], users = us\<rparr>
           | Inr usr \<Rightarrow>
               (case CompareHashAndPassword ev (Password usr) (password payload) of
                  Some err \<Rightarrow>
                    \<lparr>response = ErrNotFound (Errors_New ''invalid username or password''),
                     set_cookies = [], users = us\<rparr>
                | None \<Rightarrow>
                    \<lparr>response = Respond StatusOK [(''token'', JString ''token'')],
                     set_cookies = [], users = us\<rparr>)))"

definition Register :: "env \<Rightarrow> user list \<Rightarrow> user request \<Rightarrow> outcome" where
  "Register ev us r =
     (case Body r of
        Decode_Error err \<Rightarrow>
          (if err = Io_EOF
           then \<lparr>response = ErrDecode err, set_cookies = [], users = us\<rparr>
           else \<lparr>response = ErrDecode err, set_cookies = [], users = us\<rparr>)
      | Nil_Pointer \<Rightarrow> \<lparr>response = Panicked, set_cookies = [], users = us\<rparr>
      | Pointer usr \<Rightarrow>
          (let now = Now ev;
               usr1 = usr\<lparr>Verified := False, CreatedAt := now, UpdatedAt := now\<rparr>
           in case GenerateFromPassword ev (Password usr1) 14 of
                Inl err \<Rightarrow>
                  \<lparr>response = Err err StatusInternalServerError, set_cookies = [], users = us\<rparr>
              | Inr bytes \<Rightarrow>
                  (case Create ev us (usr1\<lparr>Password := bytes\<rparr>) of
                     Inl err \<Rightarrow> \<lparr>response = ErrBadRequest err, set_cookies = [], users = us\<rparr>
                   | Inr (new_id, us') \<Rightarrow>
                       \<lparr>response = Respond StatusCreated [(''id'', JId new_id)],
                        set_cookies = [], users = us'\<rparr>)))"

subsection \<open>The handlers with an empty body\<close>

text \<open>
  \<open>CSRF\<close>, \<open>ResetPassword\<close>, \<open>VerifyEmail\<close>, \<open>VerifyResetPassword\<close>,
  \<open>TokenRefresh\<close> and \<open>Logout\<close> have no statement in their bodies: they read nothing
  of the request, write nothing, set no cookie and touch no collection.
\<close>

definition CSRF :: "user list \<Rightarrow> 'p request \<Rightarrow> outcome" where
  "CSRF us r = \<lparr>response = Nothing_Written, set_cookies = [], users = us\<rparr>"

definition ResetPassword :: "user list \<Rightarrow> 'p request \<Rightarrow> outcome" where
  "ResetPassword us r = \<lparr>response = Nothing_Written, set_cookies = [], users = us\<rparr>"

definition VerifyEmail :: "user list \<Rightarrow> 'p request \<Rightarrow> outcome" where
  "VerifyEmail us r = \<lparr>response = Nothing_Written, set_cookies = [], users = us\<rparr>"

definition VerifyResetPassword :: "user list \<Rightarrow> 'p request \<Rightarrow> outcome" where
  "VerifyResetPassword us r = \<lparr>response = Nothing_Written, set_cookies = [], users = us\<rparr>"

definition TokenRefresh :: "user list \<Rightarrow> 'p request \<Rightarrow> outcome" where
  "TokenRefresh us r = \<lparr>response = Nothing_Written, set_cookies = [], users = us\<rparr>"


subsection \<open>Sample data\<close>

text \<open>
  A toy environment for concrete runs: the hash of \<open>p\<close> is \<open>hash:p\<close>, the clock reads
  1000, every lookup is answered, every insert is accepted and numbered by the size of
  the collection.
\<close>

definition sample_env :: env where
  "sample_env =
     \<lparr>CompareHashAndPassword =
        (\<lambda>h p. if h = ''hash:'' @ p then None else Some (Foreign ''mismatch'')),
      GenerateFromPassword = (\<lambda>p cost. Inr (''hash:'' @ p)),
      Now = 1000,
      find_failed = (\<lambda>us w. None),
      insert_refused = (\<lambda>us u. None),
      inserted_id = (\<lambda>us u. replicate (Suc (length us)) CHR ''1'')\<rparr>"

text \<open>The same environment with a hashing call that fails.\<close>

definition failing_env :: env where
  "failing_env = sample_env\<lparr>GenerateFromPassword := (\<lambda>p cost. Inl (Foreign ''no entropy''))\<rparr>"

text \<open>The same environment with a store that times out on every lookup.\<close>

definition down_env :: env where
  "down_env = sample_env\<lparr>find_failed := (\<lambda>us w. Some (Foreign ''timeout''))\<rparr>"

definition alice :: user where
  "alice = \<lparr>ID = ''1'', Email = ''a@b.com'', Password = ''hash:p1'', Verified = True,
            CreatedAt = 10, UpdatedAt = 10\<rparr>"

text \<open>A second verified record under the email of \<open>alice\<close>, with another password.\<close>

definition alice2 :: user where
  "alice2 = \<lparr>ID = ''111'', Email = ''a@b.com'', Password = ''hash:p9'', Verified = True,
             CreatedAt = 30, UpdatedAt = 30\<rparr>"

definition bob :: user where
  "bob = \<lparr>ID = ''11'', Email = ''bob@b.com'', Password = ''hash:p2'', Verified = True,
          CreatedAt = 20, UpdatedAt = 20\<rparr>"

definition login_with :: "string \<Rightarrow> string \<Rightarrow> loginRequest request" where
  "login_with e p = \<lparr>Body = Pointer \<lparr>email = e, password = p\<rparr>, Cookies = []\<rparr>"

text \<open>A login whose body is the JSON literal \<open>null\<close>.\<close>

definition null_login :: "loginRequest request" where
  "null_login = \<lparr>Body = Nil_Pointer, Cookies = []\<rparr>"

text \<open>
  A sign-up whose body claims to be verified already and brings its own timestamps.
\<close>

definition carol_signup :: "user request" where
  "carol_signup =
     \<lparr>Body = Pointer \<lparr>ID = [], Email = ''c@d.com'', Password = ''p3'', Verified = True,
                      CreatedAt = 5, UpdatedAt = 7\<rparr>,
      Cookies = []\<rparr>"

text \<open>A request with an empty body and a refresh cookie; a request whose body is one string.\<close>

definition refresh_with :: "string \<Rightarrow> unit request" where
  "refresh_with tok = \<lparr>Body = Decode_Error Io_EOF, Cookies = [(''refresh_token'', tok)]\<rparr>"

definition one_field_body :: "string \<Rightarrow> string request" where
  "one_field_body v = \<lparr>Body = Pointer v, Cookies = []\<rparr>"

section \<open>Properties\<close>

subsection \<open>The data-access object\<close>

lemma FindOne_Inr:
  "FindOne ev us w = Inr u \<Longrightarrow>
     find_failed ev us w = None \<and> u \<in> set us \<and> list_all (matches u) w"
  by (auto simp: FindOne_def find_Some_iff split: option.splits)

text \<open>
  The lookup of Login, read on the collection: it returns the first record with the
  email that is verified, when the store answers.
\<close>

lemma FindOne_login_filter:
  "FindOne ev us [Key_and [Key_email e, Key_verified True]] = Inr u \<longleftrightarrow>
     find_failed ev us [Key_and [Key_email e, Key_verified True]] = None
     \<and> List.find (\<lambda>u. Email u = e \<and> Verified u) us = Some u"
  by (simp add: FindOne_def split: option.splits)

lemma verified_email_unique:
  assumes "distinct (map Email (filter Verified us))"
    and "u \<in> set us" and "Verified u"
    and "v \<in> set us" and "Verified v"
    and "Email u = Email v"
  shows "u = v"
proof -
  from assms(1) have "inj_on Email (set (filter Verified us))"
    by (simp add: distinct_map)
  moreover have "u \<in> set (filter Verified us)" and "v \<in> set (filter Verified us)"
    using assms(2-5) by simp_all
  ultimately show ?thesis
    using assms(6) by (auto dest: inj_onD)
qed

subsection \<open>Login\<close>

text \<open>Login reads the collection and never writes it; it sets no cookie.\<close>

lemma Login_frame: "users (Login ev us r) = us \<and> set_cookies (Login ev us r) = []"
  by (simp add: Login_def split: decoded.splits sum.splits option.splits)

text \<open>The two refusals of a decoded request, branch by branch.\<close>

lemma Login_no_verified_user:
  assumes "Body r = Pointer p"
    and "find_failed ev us [Key_and [Key_email (email p), Key_verified True]] = None"
    and "\<forall>u \<in> set us. \<not> (Email u = email p \<and> Verified u)"
  shows "response (Login ev us r) = ErrBadRequest No_Documents"
proof -
  from assms(3) have "List.find (\<lambda>u. Email u = email p \<and> Verified u) us = None"
    by (simp add: find_None_iff)
  then show ?thesis
    by (simp add: Login_def assms(1,2) FindOne_def)
qed

lemma Login_password_mismatch:
  assumes "Body r = Pointer p"
    and "FindOne ev us [Key_and [Key_email (email p), Key_verified True]] = Inr found"
    and "CompareHashAndPassword ev (Password found) (password p) = Some err"
  shows "response (Login ev us r) = ErrNotFound (Errors_New ''invalid username or password'')"
  by (simp add: Login_def assms)

text \<open>Login succeeds exactly on the last branch of the handler.\<close>

lemma Login_is_success:
  "is_success (response (Login ev us r)) \<longleftrightarrow>
     (\<exists>p u. Body r = Pointer p
        \<and> FindOne ev us [Key_and [Key_email (email p), Key_verified True]] = Inr u
        \<and> CompareHashAndPassword ev (Password u) (password p) = None)"
  by (auto simp: Login_def is_success_def split: decoded.splits sum.splits option.splits)

text \<open>Every reply but the panic on a nil payload is a success or a failure, never both.\<close>

lemma Login_failure_or_success:
  "Body r \<noteq> Nil_Pointer \<Longrightarrow>
     is_failure (response (Login ev us r)) \<longleftrightarrow> \<not> is_success (response (Login ev us r))"
  by (auto simp: Login_def is_success_def is_failure_def
      split: decoded.splits sum.splits option.splits)

text \<open>
  C1. Claim: a login whose email matches no verified user and a login whose password
  fails verification get the same undifferentiated reply, same status and same message.
  The code answers the first through \<open>res.ErrBadRequest\<close> with the error of the
  data-access object and the second through \<open>res.ErrNotFound\<close> with the message
  \<open>invalid username or password\<close>: against a collection holding the verified user
  \<open>a@b.com\<close>, an unknown email is answered 400 and a wrong password 404, with
  different messages.
\<close>

theorem Login_refusals_differ:
  "response (Login sample_env [alice] (login_with ''nobody@b.com'' ''p1''))
     = ErrBadRequest No_Documents
   \<and> response (Login sample_env [alice] (login_with ''a@b.com'' ''wrong''))
     = ErrNotFound (Errors_New ''invalid username or password'')
   \<and> status (response (Login sample_env [alice] (login_with ''nobody@b.com'' ''p1''))) = Some 400
   \<and> status (response (Login sample_env [alice] (login_with ''a@b.com'' ''wrong''))) = Some 404
   \<and> message (response (Login sample_env [alice] (login_with ''nobody@b.com'' ''p1'')))
     \<noteq> message (response (Login sample_env [alice] (login_with ''a@b.com'' ''wrong'')))"
  by (simp add: Login_def FindOne_def login_with_def alice_def sample_env_def
      status_def message_def)

text \<open>
  C2. Claim: Login answers with success if and only if some record has the request's
  email, \<open>verified = true\<close> and a stored hash the request's password verifies against,
  and with a failure in every other case. The claim fails in three ways. With two
  verified records under one email, the second of which holds the matching password,
  Login checks the first only and refuses; with a store that times out, the matching
  record is never read; and a body that is the JSON literal \<open>null\<close> leaves the payload
  nil, so the handler panics and the reply is neither a success nor a failure.
\<close>

theorem Login_claimed_iff_counterexample:
  "alice2 \<in> set [alice, alice2] \<and> Email alice2 = ''a@b.com'' \<and> Verified alice2
   \<and> CompareHashAndPassword sample_env (Password alice2) ''p9'' = None
   \<and> response (Login sample_env [alice, alice2] (login_with ''a@b.com'' ''p9''))
       = ErrNotFound (Errors_New ''invalid username or password'')
   \<and> \<not> is_success (response (Login sample_env [alice, alice2] (login_with ''a@b.com'' ''p9'')))
   \<and> alice \<in> set [alice] \<and> Email alice = ''a@b.com'' \<and> Verified alice
   \<and> CompareHashAndPassword down_env (Password alice) ''p1'' = None
   \<and> response (Login down_env [alice] (login_with ''a@b.com'' ''p1''))
       = ErrBadRequest (Foreign ''timeout'')
   \<and> \<not> is_success (response (Login down_env [alice] (login_with ''a@b.com'' ''p1'')))
   \<and> response (Login sample_env [alice] null_login) = Panicked
   \<and> \<not> is_success (response (Login sample_env [alice] null_login))
   \<and> \<not> is_failure (response (Login sample_env [alice] null_login))"
  by (simp add: Login_def FindOne_def login_with_def null_login_def alice_def alice2_def
      sample_env_def down_env_def is_success_def is_failure_def)

text \<open>
  C2, as amended. For every request, whatever its body: Login answers with success if
  and only if the body decodes to a payload, the lookup is answered, and the first
  record of the collection with the request's email and \<open>verified = true\<close> has a stored
  hash the request's password verifies against. A success therefore always has a record
  with that email, \<open>verified = true\<close> and a hash the password verifies against. Unless
  the body is the JSON literal \<open>null\<close>, every other case is a failure reply.
\<close>

theorem Login_success_first_match:
  "(is_success (response (Login ev us r)) \<longleftrightarrow>
      (\<exists>p u. Body r = Pointer p
         \<and> find_failed ev us [Key_and [Key_email (email p), Key_verified True]] = None
         \<and> List.find (\<lambda>u. Email u = email p \<and> Verified u) us = Some u
         \<and> CompareHashAndPassword ev (Password u) (password p) = None))
   \<and> (is_success (response (Login ev us r)) \<longrightarrow>
      (\<exists>p. Body r = Pointer p
         \<and> (\<exists>u \<in> set us. Email u = email p \<and> Verified u
               \<and> CompareHashAndPassword ev (Password u) (password p) = None)))
   \<and> (Body r \<noteq> Nil_Pointer \<longrightarrow>
      (is_failure (response (Login ev us r)) \<longleftrightarrow> \<not> is_success (response (Login ev us r))))"
proof (intro conjI impI)
  show first: "is_success (response (Login ev us r)) \<longleftrightarrow>
      (\<exists>p u. Body r = Pointer p
         \<and> find_failed ev us [Key_and [Key_email (email p), Key_verified True]] = None
         \<and> List.find (\<lambda>u. Email u = email p \<and> Verified u) us = Some u
         \<and> CompareHashAndPassword ev (Password u) (password p) = None)"
    by (simp add: Login_is_success FindOne_login_filter)
  show "\<exists>p. Body r = Pointer p
         \<and> (\<exists>u \<in> set us. Email u = email p \<and> Verified u
               \<and> CompareHashAndPassword ev (Password u) (password p) = None)"
    if "is_success (response (Login ev us r))"
  proof -
    from that obtain p u where body: "Body r = Pointer p"
      and found: "FindOne ev us [Key_and [Key_email (email p), Key_verified True]] = Inr u"
      and ok: "CompareHashAndPassword ev (Password u) (password p) = None"
      by (auto simp: Login_is_success)
    from FindOne_Inr[OF found] have "u \<in> set us" "Email u = email p" "Verified u"
      by simp_all
    with body ok show ?thesis by blast
  qed
  show "is_failure (response (Login ev us r)) \<longleftrightarrow> \<not> is_success (response (Login ev us r))"
    if "Body r \<noteq> Nil_Pointer"
    using that by (rule Login_failure_or_success)
qed

theorem Login_success_first_match_witness:
  "List.find (\<lambda>u. Email u = ''bob@b.com'' \<and> Verified u) [alice, bob] = Some bob
   \<and> is_success (response (Login sample_env [alice, bob] (login_with ''bob@b.com'' ''p2'')))
   \<and> Body (login_with ''bob@b.com'' ''p1'') \<noteq> Nil_Pointer
   \<and> \<not> is_success (response (Login sample_env [alice, bob] (login_with ''bob@b.com'' ''p1'')))
   \<and> is_failure (response (Login sample_env [alice, bob] (login_with ''bob@b.com'' ''p1'')))"
  using Login_success_first_match[of sample_env "[alice, bob]" "login_with ''bob@b.com'' ''p2''"]
    Login_success_first_match[of sample_env "[alice, bob]" "login_with ''bob@b.com'' ''p1''"]
  by (simp add: login_with_def alice_def bob_def sample_env_def)

text \<open>
  Where the store answers and no two verified records share an email (the data model's
  unique email), the first match is the only one, and a decoded request is answered as
  the claim says. Register keeps such collections so (\<open>Register_keeps_verified_emails\<close>
  below).
\<close>

lemma Login_success_iff_unique_email:
  assumes uniq: "distinct (map Email (filter Verified us))"
    and body: "Body r = Pointer p"
    and up: "find_failed ev us [Key_and [Key_email (email p), Key_verified True]] = None"
  shows "is_success (response (Login ev us r)) \<longleftrightarrow>
            (\<exists>u \<in> set us. Email u = email p \<and> Verified u \<and>
               CompareHashAndPassword ev (Password u) (password p) = None)"
proof
  assume "is_success (response (Login ev us r))"
  then obtain q u where "Body r = Pointer q"
    and "FindOne ev us [Key_and [Key_email (email q), Key_verified True]] = Inr u"
    and "CompareHashAndPassword ev (Password u) (password q) = None"
    by (auto simp: Login_is_success)
  with body FindOne_Inr[of ev us "[Key_and [Key_email (email q), Key_verified True]]" u]
  show "\<exists>u \<in> set us. Email u = email p \<and> Verified u \<and>
               CompareHashAndPassword ev (Password u) (password p) = None"
    by auto
next
  assume "\<exists>u \<in> set us. Email u = email p \<and> Verified u \<and>
               CompareHashAndPassword ev (Password u) (password p) = None"
  then obtain u where u: "u \<in> set us" "Email u = email p" "Verified u"
    and ok: "CompareHashAndPassword ev (Password u) (password p) = None"
    by blast
  from u have "List.find (\<lambda>u. Email u = email p \<and> Verified u) us \<noteq> None"
    by (auto simp: find_None_iff)
  then obtain v where v: "List.find (\<lambda>u. Email u = email p \<and> Verified u) us = Some v"
    by blast
  then have "v \<in> set us" "Email v = email p" "Verified v"
    by (auto simp: find_Some_iff)
  with verified_email_unique[OF uniq u(1) u(3), of v] u(2) have "u = v"
    by simp
  with v ok up body show "is_success (response (Login ev us r))"
    by (auto simp: Login_is_success FindOne_login_filter)
qed

text \<open>
  C3. Claim: a successful login answers 200 with the access token issued for that user
  in the body and a refresh token in an HTTP-only secure cookie. The code answers 200
  with the constant body \<open>{"token": "token"}\<close> and sets no cookie (the two steps are
  marked TODO in the handler): two different users get the same body.
\<close>

theorem Login_success_constant_body:
  "Login sample_env [alice, bob] (login_with ''a@b.com'' ''p1'')
     = \<lparr>response = Respond 200 [(''token'', JString ''token'')], set_cookies = [],
        users = [alice, bob]\<rparr>
   \<and> Login sample_env [alice, bob] (login_with ''bob@b.com'' ''p2'')
     = \<lparr>response = Respond 200 [(''token'', JString ''token'')], set_cookies = [],
        users = [alice, bob]\<rparr>"
  by (simp add: Login_def FindOne_def login_with_def alice_def bob_def sample_env_def)

subsection \<open>Register\<close>


text \<open>
  Register adds no verified record, so the emails of the verified records stay as they
  were: collections in which they are distinct stay so under every handler.
\<close>

lemma Register_keeps_verified_emails:
  "map Email (filter Verified (users (Register ev us r))) = map Email (filter Verified us)"
  by (auto simp: Register_def Create_def Let_def
      split: decoded.splits sum.splits option.splits)



text \<open>
  C5. If hashing the password fails during Register, the request is answered with an
  internal error (500, carrying the hashing error) and no record is created: the
  collection is the one the handler found.
\<close>

theorem Register_hash_failure:
  assumes body: "Body r = Pointer u"
    and fails: "GenerateFromPassword ev (Password u) 14 = Inl err"
  shows "response (Register ev us r) = Err err StatusInternalServerError
         \<and> status (response (Register ev us r)) = Some 500
         \<and> users (Register ev us r) = us
         \<and> set_cookies (Register ev us r) = []"
  by (simp add: Register_def body fails status_def)

theorem Register_hash_failure_witness:
  "Body carol_signup
     = Pointer \<lparr>ID = [], Email = ''c@d.com'', Password = ''p3'', Verified = True,
                CreatedAt = 5, UpdatedAt = 7\<rparr>
   \<and> GenerateFromPassword failing_env ''p3'' 14 = Inl (Foreign ''no entropy'')
   \<and> response (Register failing_env [alice] carol_signup) = Err (Foreign ''no entropy'') 500
   \<and> users (Register failing_env [alice] carol_signup) = [alice]"
proof -
  have body: "Body carol_signup
     = Pointer \<lparr>ID = [], Email = ''c@d.com'', Password = ''p3'', Verified = True,
                CreatedAt = 5, UpdatedAt = 7\<rparr>"
    by (simp add: carol_signup_def)
  have fails: "GenerateFromPassword failing_env
      (Password \<lparr>ID = [], Email = ''c@d.com'', Password = ''p3'', Verified = True,
                 CreatedAt = 5, UpdatedAt = 7\<rparr>) 14 = Inl (Foreign ''no entropy'')"
    by (simp add: failing_env_def)
  from Register_hash_failure[OF body fails, of "[alice]"] body fails
  show ?thesis by simp
qed



subsection \<open>The handlers with an empty body\<close>

text \<open>
  C6. Claim: redeeming a valid refresh token returns a new refresh token different
  from the one presented, and the old token fails from then on. \<open>TokenRefresh\<close> has
  an empty body: a request carrying the cookie \<open>r1\<close> gets no cookie and no body back,
  and presenting \<open>r1\<close> again is answered the same way, with the implicit 200 and no
  failure.
\<close>

theorem TokenRefresh_no_rotation:
  "TokenRefresh [alice] (refresh_with ''r1'')
     = \<lparr>response = Nothing_Written, set_cookies = [], users = [alice]\<rparr>
   \<and> TokenRefresh (users (TokenRefresh [alice] (refresh_with ''r1''))) (refresh_with ''r1'')
     = \<lparr>response = Nothing_Written, set_cookies = [], users = [alice]\<rparr>
   \<and> status Nothing_Written = Some 200 \<and> \<not> is_failure Nothing_Written"
  by (simp add: TokenRefresh_def status_def is_failure_def)

text \<open>
  C7. Claim: redeeming the same verification token twice succeeds at most the first
  time and is answered \<open>invalid\<close> the second time, and an expired token always fails.
  \<open>VerifyEmail\<close> has an empty body: the token \<open>t1\<close> presented twice is answered
  twice with the implicit 200, never with a failure, and the unverified record stays
  unverified.
\<close>

theorem VerifyEmail_redeems_twice:
  "VerifyEmail [alice\<lparr>Verified := False\<rparr>] (one_field_body ''t1'')
     = \<lparr>response = Nothing_Written, set_cookies = [],
        users = [alice\<lparr>Verified := False\<rparr>]\<rparr>
   \<and> VerifyEmail (users (VerifyEmail [alice\<lparr>Verified := False\<rparr>] (one_field_body ''t1'')))
        (one_field_body ''t1'')
     = \<lparr>response = Nothing_Written, set_cookies = [],
        users = [alice\<lparr>Verified := False\<rparr>]\<rparr>
   \<and> status Nothing_Written = Some 200 \<and> \<not> is_failure Nothing_Written"
  by (simp add: VerifyEmail_def status_def is_failure_def)

text \<open>
  C8. For every pair of reset-password requests, one with an email the collection
  holds and one with an email it does not hold, the reply is 200 in both cases and the
  two replies are the same (same reply, same cookies): the reply does not tell whether
  the email exists. It holds for any two requests against any two collections, since
  \<open>ResetPassword\<close> reads neither.
\<close>

theorem ResetPassword_reply_uniform:
  "status (response (ResetPassword us r)) = Some StatusOK
   \<and> status (response (ResetPassword us' r')) = Some StatusOK
   \<and> response (ResetPassword us r) = response (ResetPassword us' r')
   \<and> set_cookies (ResetPassword us r) = set_cookies (ResetPassword us' r')"
  by (simp add: ResetPassword_def status_def)

theorem ResetPassword_reply_uniform_witness:
  "''a@b.com'' \<in> set (map Email [alice]) \<and> ''nobody@b.com'' \<notin> set (map Email [alice])
   \<and> status (response (ResetPassword [alice] (one_field_body ''a@b.com''))) = Some 200
   \<and> status (response (ResetPassword [alice] (one_field_body ''nobody@b.com''))) = Some 200
   \<and> response (ResetPassword [alice] (one_field_body ''a@b.com''))
       = response (ResetPassword [alice] (one_field_body ''nobody@b.com''))
   \<and> set_cookies (ResetPassword [alice] (one_field_body ''a@b.com''))
       = set_cookies (ResetPassword [alice] (one_field_body ''nobody@b.com''))"
  using ResetPassword_reply_uniform
    [of "[alice]" "one_field_body ''a@b.com''" "[alice]" "one_field_body ''nobody@b.com''"]
  by (simp add: alice_def)


end
